theory Spec2Isabelle
  imports Main
begin

section \<open>Text\<close>

text \<open>
  A Python \<open>str\<close> is a sequence of Unicode code points. The program's messages are
  Russian, so text is modelled as a list of code points; \<open>ascii\<close> embeds an ASCII
  literal.
\<close>

type_synonym ustring = "nat list"

definition ascii :: "string \<Rightarrow> ustring" where
  "ascii s = map of_char s"

definition eq_sign :: nat where
  "eq_sign = 61"

text \<open>
  \<open>str.strip()\<close> without argument removes the leading and the trailing characters
  for which \<open>str.isspace\<close> holds: the code points below.
\<close>

definition isspace :: "nat \<Rightarrow> bool" where
  "isspace c \<longleftrightarrow>
     (9 \<le> c \<and> c \<le> 13) \<or> (28 \<le> c \<and> c \<le> 32) \<or> c = 133 \<or> c = 160 \<or> c = 5760 \<or>
     (8192 \<le> c \<and> c \<le> 8202) \<or> c = 8232 \<or> c = 8233 \<or> c = 8239 \<or> c = 8287 \<or>
     c = 12288"

definition strip :: "ustring \<Rightarrow> ustring" where
  "strip s = rev (dropWhile isspace (rev (dropWhile isspace s)))"

text \<open>
  \<open>s.split(sep, 1)\<close> for a one-character separator: at most one split, at the first
  occurrence; a text without the separator comes back whole, as the only element.
\<close>

definition split_maxsplit1 :: "nat \<Rightarrow> ustring \<Rightarrow> ustring list" where
  "split_maxsplit1 sep s =
     (if sep \<in> set s
      then [takeWhile (\<lambda>c. c \<noteq> sep) s, tl (dropWhile (\<lambda>c. c \<noteq> sep) s)]
      else [s])"

section \<open>The messages of the program\<close>

text \<open>The label's initial text, "the solution will appear here" (main.py, lines 100 and 111).\<close>

definition placeholder :: ustring where
  "placeholder =
     [1056, 1077, 1096, 1077, 1085, 1080, 1077, 32, 1087, 1086, 1103, 1074, 1080, 1090,
      1089, 1103, 32, 1079, 1076, 1077, 1089, 1100]"

text \<open>"Enter an equation" (line 149).\<close>

definition msg_empty :: ustring where
  "msg_empty =
     [1042, 1074, 1077, 1076, 1080, 1090, 1077, 32, 1091, 1088, 1072, 1074, 1085, 1077,
      1085, 1080, 1077]"

text \<open>"The equation must contain the sign '='" (line 151).\<close>

definition msg_no_equals :: ustring where
  "msg_no_equals =
     [1059, 1088, 1072, 1074, 1085, 1077, 1085, 1080, 1077, 32, 1076, 1086, 1083, 1078,
      1085, 1086, 32, 1089, 1086, 1076, 1077, 1088, 1078, 1072, 1090, 1100, 32, 1079,
      1085, 1072, 1082, 32, 39, 61, 39]"

text \<open>"The equation is not linear (degree > 1)" (line 168).\<close>

definition msg_not_linear :: ustring where
  "msg_not_linear =
     [1059, 1088, 1072, 1074, 1085, 1077, 1085, 1080, 1077, 32, 1085, 1077, 32, 1083,
      1080, 1085, 1077, 1081, 1085, 1086, 1077, 32, 40, 1089, 1090, 1077, 1087, 1077,
      1085, 1100, 32, 62, 32, 49, 41]"

text \<open>"The equation is not quadratic (the degree must be 2)" (line 170).\<close>

definition msg_not_quadratic :: ustring where
  "msg_not_quadratic =
     [1059, 1088, 1072, 1074, 1085, 1077, 1085, 1080, 1077, 32, 1085, 1077, 32, 1082,
      1074, 1072, 1076, 1088, 1072, 1090, 1085, 1086, 1077, 32, 40, 1089, 1090, 1077,
      1087, 1077, 1085, 1100, 32, 1076, 1086, 1083, 1078, 1085, 1072, 32, 1073, 1099,
      1090, 1100, 32, 50, 41]"

text \<open>"The equation has no solutions" (line 177).\<close>

definition msg_no_solutions :: ustring where
  "msg_no_solutions =
     [1059, 1088, 1072, 1074, 1085, 1077, 1085, 1080, 1077, 32, 1085, 1077, 32, 1080,
      1084, 1077, 1077, 1090, 32, 1088, 1077, 1096, 1077, 1085, 1080, 1081]"

text \<open>
  The pieces of the three success messages (lines 183, 186 and 189): "Roots of the
  equation:" followed by a line \<open>x1 = \<close> and a line \<open>x2 = \<close>; "Root of the
  equation (multiple):" followed by a line \<open>x = \<close>; "Solution of the equation:"
  followed by a line \<open>x = \<close>.
\<close>

definition roots_head :: ustring where
  "roots_head =
     [1050, 1086, 1088, 1085, 1080, 32, 1091, 1088, 1072, 1074, 1085, 1077, 1085, 1080,
      1103, 58, 10, 120, 49, 32, 61, 32]"

definition roots_mid :: ustring where
  "roots_mid = [10, 120, 50, 32, 61, 32]"

definition multiple_head :: ustring where
  "multiple_head =
     [1050, 1086, 1088, 1077, 1085, 1100, 32, 1091, 1088, 1072, 1074, 1085, 1077, 1085,
      1080, 1103, 32, 40, 1082, 1088, 1072, 1090, 1085, 1099, 1081, 41, 58, 10, 120, 32,
      61, 32]"

definition linear_head :: ustring where
  "linear_head =
     [1056, 1077, 1096, 1077, 1085, 1080, 1077, 32, 1091, 1088, 1072, 1074, 1085, 1077,
      1085, 1080, 1103, 58, 10, 120, 32, 61, 32]"

text \<open>"Error: " (line 195).\<close>

definition error_prefix :: ustring where
  "error_prefix = [1054, 1096, 1080, 1073, 1082, 1072, 58, 32]"

section \<open>Exceptions\<close>

text \<open>
  The program raises \<open>ValueError\<close> itself; every other exception comes out of the
  symbolic library, whose parser evaluates the text it is given. \<open>LibraryError\<close> stands
  for the library's exceptions of class \<open>Exception\<close>; \<open>SystemExit\<close>,
  \<open>KeyboardInterrupt\<close> and \<open>GeneratorExit\<close> are the exceptions that derive from
  \<open>BaseException\<close> only. Each carries the message that \<open>str(e)\<close> returns.
\<close>

datatype exc =
    ValueError ustring | LibraryError ustring
  | SystemExit ustring | KeyboardInterrupt ustring | GeneratorExit ustring

fun str_exc :: "exc \<Rightarrow> ustring" where
  "str_exc (ValueError m) = m"
| "str_exc (LibraryError m) = m"
| "str_exc (SystemExit m) = m"
| "str_exc (KeyboardInterrupt m) = m"
| "str_exc (GeneratorExit m) = m"

text \<open>\<open>isinstance(e, Exception)\<close>: what a clause \<open>except Exception\<close> catches.\<close>

fun is_Exception :: "exc \<Rightarrow> bool" where
  "is_Exception (ValueError m) = True"
| "is_Exception (LibraryError m) = True"
| "is_Exception (SystemExit m) = False"
| "is_Exception (KeyboardInterrupt m) = False"
| "is_Exception (GeneratorExit m) = False"

section \<open>The symbolic library\<close>

text \<open>
  SymPy is not part of the program. Its parser transformations are named by an
  enumeration; \<open>standard_transformations\<close> is the tuple of that name in
  \<open>sympy.parsing.sympy_parser\<close>, and \<open>convert_xor\<close> is the transformation of that
  module that reads \<open>^\<close> as exponentiation.
\<close>

datatype transformation =
    lambda_notation | auto_symbol | repeated_decimals | auto_number | factorial_notation
  | implicit_multiplication_application | convert_xor

definition standard_transformations :: "transformation list" where
  "standard_transformations =
     [lambda_notation, auto_symbol, repeated_decimals, auto_number, factorial_notation]"

text \<open>Line 38 of main.py.\<close>

definition transformations :: "transformation list" where
  "transformations = standard_transformations @ [implicit_multiplication_application]"

text \<open>\<open>sp.degree\<close> returns a non-negative integer, or \<open>-oo\<close> for the zero polynomial.\<close>

datatype deg = NegativeInfinity | Degree nat

fun deg_gt :: "deg \<Rightarrow> nat \<Rightarrow> bool" where
  "deg_gt NegativeInfinity n = False"
| "deg_gt (Degree d) n = (d > n)"

text \<open>
  The calls the program makes into the library, over the library's expressions \<open>'e\<close>.
  Each call that can raise returns a sum. \<open>sp_str\<close> is \<open>str\<close> on a library object:
  its printed form.
\<close>

record 'e engine =
  sp_parse_expr :: "ustring \<Rightarrow> transformation list \<Rightarrow> exc + 'e"
  sp_sub :: "'e \<Rightarrow> 'e \<Rightarrow> exc + 'e"
  sp_symbols :: "ustring \<Rightarrow> 'e"
  sp_degree :: "'e \<Rightarrow> 'e \<Rightarrow> exc + deg"
  sp_solve :: "'e \<Rightarrow> 'e \<Rightarrow> exc + 'e list"
  sp_N :: "'e \<Rightarrow> nat \<Rightarrow> exc + 'e"
  sp_str :: "'e \<Rightarrow> ustring"

section \<open>The widget state\<close>

record state =
  linear_check_active :: bool
  quadratic_check_active :: bool
  equation_input_text :: ustring
  result_label_text :: ustring

text \<open>The state that \<open>__init__\<close> builds (lines 62, 70, 80 and 100).\<close>

definition init_state :: state where
  "init_state =
     \<lparr>linear_check_active = True, quadratic_check_active = False,
      equation_input_text = [], result_label_text = placeholder\<rparr>"

datatype checkbox = linear_check | quadratic_check

subsection \<open>\<open>clear_fields\<close>\<close>

definition clear_fields :: "'w \<Rightarrow> state \<Rightarrow> state" where
  "clear_fields instance st =
     st\<lparr>equation_input_text := [], result_label_text := placeholder\<rparr>"

subsection \<open>\<open>on_checkbox_active\<close>\<close>

definition on_checkbox_active :: "checkbox \<Rightarrow> bool \<Rightarrow> state \<Rightarrow> state" where
  "on_checkbox_active checkbox v st =
     (if v
      then (if checkbox = linear_check
            then st\<lparr>quadratic_check_active := False\<rparr>
            else st\<lparr>linear_check_active := False\<rparr>)
      else st)"

text \<open>
  A toggle of a box: when the value of its \<open>active\<close> property changes, the property
  takes the new value and the handler bound to it (lines 63 and 71) runs with the box
  and the value; a write of the value the property already has runs nothing. The
  handler's own assignment of \<open>False\<close> to the other box runs the handler once more
  with \<open>False\<close>, where it does nothing.
\<close>

definition active :: "checkbox \<Rightarrow> state \<Rightarrow> bool" where
  "active checkbox st =
     (case checkbox of
        linear_check \<Rightarrow> linear_check_active st
      | quadratic_check \<Rightarrow> quadratic_check_active st)"

definition set_active :: "checkbox \<Rightarrow> bool \<Rightarrow> state \<Rightarrow> state" where
  "set_active checkbox v st =
     (if active checkbox st = v then st
      else on_checkbox_active checkbox v
             (case checkbox of
                linear_check \<Rightarrow> st\<lparr>linear_check_active := v\<rparr>
              | quadratic_check \<Rightarrow> st\<lparr>quadratic_check_active := v\<rparr>))"

inductive reachable :: "state \<Rightarrow> bool" where
  init: "reachable init_state"
| toggle: "reachable st \<Longrightarrow> reachable (set_active checkbox v st)"

definition exactly_one_active :: "state \<Rightarrow> bool" where
  "exactly_one_active st \<longleftrightarrow> (linear_check_active st \<noteq> quadratic_check_active st)"

subsection \<open>\<open>format_solution\<close>\<close>

text \<open>
  The \<open>try\<close> block holds the numeric evaluation at 4 digits and the printing of its
  result; the bare \<open>except\<close> catches whatever is raised there and prints the solution
  itself.
\<close>

definition format_solution :: "'e engine \<Rightarrow> 'e \<Rightarrow> exc + ustring" where
  "format_solution E solution =
     (case (case sp_N E solution 4 of
              Inl e \<Rightarrow> Inl e
            | Inr numeric_value \<Rightarrow> Inr (sp_str E numeric_value)) of
        Inl e \<Rightarrow> Inr (sp_str E solution)
      | Inr s \<Rightarrow> Inr s)"

subsection \<open>\<open>solve\<close>\<close>

datatype equation_type = Linear | Quadratic

text \<open>Lines 176 to 189: the result text for the list of solutions.\<close>

definition format_result :: "'e engine \<Rightarrow> equation_type \<Rightarrow> 'e list \<Rightarrow> exc + ustring" where
  "format_result E equation_type solutions =
     (if solutions = [] then Inr msg_no_solutions
      else if equation_type = Quadratic then
        (if length solutions = 2 then
           (case format_solution E (solutions ! 0) of
              Inl e \<Rightarrow> Inl e
            | Inr x1_formatted \<Rightarrow>
                (case format_solution E (solutions ! 1) of
                   Inl e \<Rightarrow> Inl e
                 | Inr x2_formatted \<Rightarrow>
                     Inr (roots_head @ x1_formatted @ roots_mid @ x2_formatted)))
         else
           (case format_solution E (solutions ! 0) of
              Inl e \<Rightarrow> Inl e
            | Inr x_formatted \<Rightarrow> Inr (multiple_head @ x_formatted)))
      else
        (case format_solution E (solutions ! 0) of
           Inl e \<Rightarrow> Inl e
         | Inr x_formatted \<Rightarrow> Inr (linear_head @ x_formatted)))"

text \<open>Lines 157 to 189: parsing of the two sides, degree check, solving, formatting.\<close>

definition solve_sides ::
  "'e engine \<Rightarrow> equation_type \<Rightarrow> ustring \<Rightarrow> ustring \<Rightarrow> exc + ustring" where
  "solve_sides E equation_type lhs_str rhs_str =
     (case sp_parse_expr E lhs_str transformations of
        Inl e \<Rightarrow> Inl e
      | Inr lhs \<Rightarrow>
     (case sp_parse_expr E rhs_str transformations of
        Inl e \<Rightarrow> Inl e
      | Inr rhs \<Rightarrow>
     (case sp_sub E lhs rhs of
        Inl e \<Rightarrow> Inl e
      | Inr expr \<Rightarrow>
     (let x = sp_symbols E (ascii ''x'') in
      case sp_degree E expr x of
        Inl e \<Rightarrow> Inl e
      | Inr degree \<Rightarrow>
          if equation_type = Linear \<and> deg_gt degree 1
          then Inl (ValueError msg_not_linear)
          else if equation_type = Quadratic \<and> degree \<noteq> Degree 2
          then Inl (ValueError msg_not_quadratic)
          else (case sp_solve E expr x of
                  Inl e \<Rightarrow> Inl e
                | Inr solutions \<Rightarrow> format_result E equation_type solutions)))))"

text \<open>
  The body of the \<open>try\<close> block (lines 143 to 189): a raise is \<open>Inl\<close>, the text for the
  label is \<open>Inr\<close>. Unpacking the split into two names raises when it has one element.
\<close>

definition unpack_error :: exc where
  "unpack_error = ValueError (ascii ''not enough values to unpack (expected 2, got 1)'')"

definition declared_type :: "state \<Rightarrow> equation_type" where
  "declared_type st = (if linear_check_active st then Linear else Quadratic)"

definition solve_body :: "'e engine \<Rightarrow> state \<Rightarrow> exc + ustring" where
  "solve_body E st =
     (let equation_type = declared_type st;
          eq_text = strip (equation_input_text st)
      in if eq_text = [] then Inl (ValueError msg_empty)
         else if eq_sign \<notin> set eq_text then Inl (ValueError msg_no_equals)
         else (case split_maxsplit1 eq_sign eq_text of
                 [lhs_str, rhs_str] \<Rightarrow> solve_sides E equation_type lhs_str rhs_str
               | _ \<Rightarrow> Inl unpack_error))"

text \<open>
  The whole method: the \<open>try\<close> block and its handler (lines 191 to 195). The handler
  is \<open>except Exception as e\<close>: an exception of another class is not caught, and leaves
  \<open>solve\<close> with the label unwritten.
\<close>

definition solve :: "'e engine \<Rightarrow> state \<Rightarrow> exc + state" where
  "solve E st =
     (case solve_body E st of
        Inr result_text \<Rightarrow> Inr (st\<lparr>result_label_text := result_text\<rparr>)
      | Inl e \<Rightarrow>
          if is_Exception e
          then Inr (st\<lparr>result_label_text := error_prefix @ str_exc e\<rparr>)
          else Inl e)"

section \<open>Engines for concrete runs\<close>

text \<open>
  The theorems below hold for every engine. To run \<open>solve\<close> on a concrete input, an
  engine is fixed by the answers the library gives on that input; its expressions are
  represented by their printed form. The parser removes the white space around its
  argument, as \<open>parse_expr\<close> does.
\<close>

definition scripted ::
  "(ustring \<Rightarrow> exc + ustring) \<Rightarrow> (exc + ustring) \<Rightarrow> (exc + deg) \<Rightarrow>
   (exc + ustring list) \<Rightarrow> (ustring \<Rightarrow> exc + ustring) \<Rightarrow> ustring engine" where
  "scripted parse difference degree solutions numeric =
     \<lparr>sp_parse_expr = (\<lambda>s ts. parse (strip s)),
      sp_sub = (\<lambda>a b. difference),
      sp_symbols = (\<lambda>name. name),
      sp_degree = (\<lambda>f gen. degree),
      sp_solve = (\<lambda>f gen. solutions),
      sp_N = (\<lambda>v n. numeric v),
      sp_str = (\<lambda>v. v)\<rparr>"

definition parse_echo :: "ustring \<Rightarrow> exc + ustring" where
  "parse_echo s = Inr s"

definition numeric_echo :: "ustring \<Rightarrow> exc + ustring" where
  "numeric_echo v = Inr v"

definition state_of :: "bool \<Rightarrow> bool \<Rightarrow> string \<Rightarrow> state" where
  "state_of lin quad txt =
     \<lparr>linear_check_active = lin, quadratic_check_active = quad,
      equation_input_text = ascii txt, result_label_text = placeholder\<rparr>"

text \<open>
  The equation \<open>x = x\<close>: both sides parse to the symbol \<open>x\<close>, their difference is
  \<open>0\<close>, \<open>sp.degree(0, x)\<close> is \<open>-oo\<close> and \<open>sp.solve(0, x)\<close> is the empty list.
\<close>

definition tautology_engine :: "ustring engine" where
  "tautology_engine =
     scripted
       (\<lambda>s. if s = ascii ''x'' then Inr (ascii ''x'')
            else Inl (LibraryError (ascii ''invalid syntax'')))
       (Inr (ascii ''0'')) (Inr NegativeInfinity) (Inr []) numeric_echo"

text \<open>
  The equation \<open>x**2 = 4\<close>: difference \<open>x**2 - 4\<close>, degree 2, solutions \<open>-2\<close> and
  \<open>2\<close>, printed at 4 digits as \<open>-2.000\<close> and \<open>2.000\<close>.
\<close>

definition square_engine :: "ustring engine" where
  "square_engine =
     scripted parse_echo (Inr (ascii ''x**2 - 4'')) (Inr (Degree 2))
       (Inr [ascii ''-2'', ascii ''2''])
       (\<lambda>v. if v = ascii ''2'' then Inr (ascii ''2.000'')
            else if v = ascii ''-2'' then Inr (ascii ''-2.000'')
            else Inl (LibraryError (ascii ''cannot evaluate'')))"

text \<open>The equation \<open>2*x = 4\<close>: difference \<open>2*x - 4\<close>, degree 1, solution \<open>2\<close>.\<close>

definition line_engine :: "ustring engine" where
  "line_engine =
     scripted parse_echo (Inr (ascii ''2*x - 4'')) (Inr (Degree 1)) (Inr [ascii ''2''])
       (\<lambda>v. Inr (ascii ''2.000''))"










section \<open>Trimming and splitting\<close>

lemma takeWhile_upto_sep:
  "sep \<notin> set l \<Longrightarrow> takeWhile (\<lambda>c. c \<noteq> sep) (l @ sep # r) = l"
  by (induction l) auto

lemma dropWhile_upto_sep:
  "sep \<notin> set l \<Longrightarrow> dropWhile (\<lambda>c. c \<noteq> sep) (l @ sep # r) = sep # r"
  by (induction l) auto

lemma split_at_first:
  "s = l @ sep # r \<Longrightarrow> sep \<notin> set l \<Longrightarrow> split_maxsplit1 sep s = [l, r]"
  by (simp add: split_maxsplit1_def takeWhile_upto_sep dropWhile_upto_sep)

lemma first_occurrence:
  "sep \<in> set s \<Longrightarrow> \<exists>l r. s = l @ sep # r \<and> sep \<notin> set l"
  using split_list_first [of sep s] by blast

lemma solve_body_valid:
  assumes "strip (equation_input_text st) = l @ eq_sign # r" and "eq_sign \<notin> set l"
  shows "solve_body E st = solve_sides E (declared_type st) l r"
  using assms by (simp add: solve_body_def Let_def split_at_first)

lemma dropWhile_decomp: "\<exists>a. s = a @ dropWhile P s \<and> (\<forall>c\<in>set a. P c)"
proof (intro exI conjI)
  show "s = takeWhile P s @ dropWhile P s" by simp
  show "\<forall>c\<in>set (takeWhile P s). P c" by (auto dest: set_takeWhileD)
qed

lemma strip_decomp:
  "\<exists>a b. s = a @ strip s @ b \<and> (\<forall>c\<in>set a. isspace c) \<and> (\<forall>c\<in>set b. isspace c)"
proof -
  obtain a where a: "s = a @ dropWhile isspace s" "\<forall>c\<in>set a. isspace c"
    using dropWhile_decomp [of s isspace] by auto
  obtain b where b: "rev (dropWhile isspace s) = b @ dropWhile isspace (rev (dropWhile isspace s))"
      "\<forall>c\<in>set b. isspace c"
    using dropWhile_decomp [of "rev (dropWhile isspace s)" isspace] by auto
  have "rev (rev (dropWhile isspace s)) = rev (b @ dropWhile isspace (rev (dropWhile isspace s)))"
    using b(1) by simp
  then have "dropWhile isspace s = strip s @ rev b"
    by (simp add: strip_def)
  with a have "s = a @ strip s @ rev b" by simp
  moreover have "\<forall>c\<in>set (rev b). isspace c" using b(2) by simp
  ultimately show ?thesis using a(2) by blast
qed

lemma strip_ends:
  assumes "strip s \<noteq> []"
  shows "\<not> isspace (hd (strip s)) \<and> \<not> isspace (last (strip s))"
proof -
  let ?d = "dropWhile isspace s"
  let ?e = "dropWhile isspace (rev ?d)"
  have e: "?e \<noteq> []" using assms by (simp add: strip_def)
  then have l: "\<not> isspace (hd ?e)" by (rule hd_dropWhile)
  have "last (strip s) = hd ?e" using e by (simp add: strip_def last_rev)
  with l have 1: "\<not> isspace (last (strip s))" by simp
  have d: "?d \<noteq> []"
  proof
    assume a: "?d = []"
    have "?e = []" unfolding a by simp
    with e show False by blast
  qed
  then have hd_d: "\<not> isspace (hd ?d)" by (rule hd_dropWhile)
  have "last (takeWhile isspace (rev ?d) @ ?e) = last ?e"
    using e by (rule last_appendR)
  then have "last ?e = last (rev ?d)" by simp
  then have "last ?e = hd ?d" using d by (simp add: last_rev)
  then have "hd (strip s) = hd ?d" using e by (simp add: strip_def hd_rev)
  with hd_d 1 show ?thesis by simp
qed

section \<open>Unfolding for concrete runs\<close>

lemmas run_defs =
  solve_def solve_body_def solve_sides_def format_result_def format_solution_def
  declared_type_def strip_def isspace_def ascii_def eq_sign_def split_maxsplit1_def
  scripted_def parse_echo_def numeric_echo_def state_of_def

section \<open>Input validation\<close>

text \<open>
  C4. \<open>solve\<close> works on the trimmed input text. A text that is empty after trimming
  ends in the \<open>ValueError\<close> with the message "enter an equation"; a non-empty one
  without the character \<open>=\<close> ends in the \<open>ValueError\<close> with the message about the
  missing sign; both are shown behind the error prefix. Otherwise the trimmed text is
  cut at its first \<open>=\<close>, and the part before it and the part after it are what the
  rest of the method parses.
\<close>

theorem input_validation:
  "(strip (equation_input_text st) = [] \<longrightarrow>
      solve_body E st = Inl (ValueError msg_empty) \<and>
      solve E st = Inr (st\<lparr>result_label_text := error_prefix @ msg_empty\<rparr>)) \<and>
   (strip (equation_input_text st) \<noteq> [] \<and> eq_sign \<notin> set (strip (equation_input_text st)) \<longrightarrow>
      solve_body E st = Inl (ValueError msg_no_equals) \<and>
      solve E st = Inr (st\<lparr>result_label_text := error_prefix @ msg_no_equals\<rparr>)) \<and>
   (eq_sign \<in> set (strip (equation_input_text st)) \<longrightarrow>
      (\<exists>lhs_str rhs_str.
         strip (equation_input_text st) = lhs_str @ eq_sign # rhs_str \<and>
         eq_sign \<notin> set lhs_str \<and>
         solve_body E st = solve_sides E (declared_type st) lhs_str rhs_str))"
proof (intro conjI impI)
  assume "strip (equation_input_text st) = []"
  then show b: "solve_body E st = Inl (ValueError msg_empty)"
    by (simp add: solve_body_def)
  then show "solve E st = Inr (st\<lparr>result_label_text := error_prefix @ msg_empty\<rparr>)"
    by (simp add: solve_def)
next
  assume "strip (equation_input_text st) \<noteq> [] \<and> eq_sign \<notin> set (strip (equation_input_text st))"
  then show b: "solve_body E st = Inl (ValueError msg_no_equals)"
    by (simp add: solve_body_def)
  then show "solve E st = Inr (st\<lparr>result_label_text := error_prefix @ msg_no_equals\<rparr>)"
    by (simp add: solve_def)
next
  assume "eq_sign \<in> set (strip (equation_input_text st))"
  then obtain l r where lr: "strip (equation_input_text st) = l @ eq_sign # r" "eq_sign \<notin> set l"
    using first_occurrence [of eq_sign "strip (equation_input_text st)"] by auto
  then have "solve_body E st = solve_sides E (declared_type st) l r"
    by (rule solve_body_valid)
  with lr show "\<exists>lhs_str rhs_str.
         strip (equation_input_text st) = lhs_str @ eq_sign # rhs_str \<and>
         eq_sign \<notin> set lhs_str \<and>
         solve_body E st = solve_sides E (declared_type st) lhs_str rhs_str"
    by blast
qed

theorem input_validation_witness:
  "solve line_engine (state_of True False ''   '') =
     Inr ((state_of True False ''   '')\<lparr>result_label_text := error_prefix @ msg_empty\<rparr>) \<and>
   solve line_engine (state_of True False '' x + 1 '') =
     Inr ((state_of True False '' x + 1 '')\<lparr>result_label_text := error_prefix @ msg_no_equals\<rparr>) \<and>
   solve_body line_engine (state_of True False '' 2*x = 4 '') =
     solve_sides line_engine Linear (ascii ''2*x '') (ascii '' 4'')"
proof -
  have 1: "strip (equation_input_text (state_of True False ''   '')) = []"
    by (simp add: run_defs)
  have 2: "strip (equation_input_text (state_of True False '' x + 1 '')) \<noteq> [] \<and>
      eq_sign \<notin> set (strip (equation_input_text (state_of True False '' x + 1 '')))"
    by (simp add: run_defs)
  have 3: "eq_sign \<in> set (strip (equation_input_text (state_of True False '' 2*x = 4 '')))"
    by (simp add: run_defs)
  show ?thesis
    using input_validation [of "state_of True False ''   ''" line_engine] 1
      input_validation [of "state_of True False '' x + 1 ''" line_engine] 2
      input_validation [of "state_of True False '' 2*x = 4 ''" line_engine] 3
    by (simp add: run_defs)
qed

section \<open>The degree check\<close>

lemma solve_sides_checked:
  assumes "sp_parse_expr E lhs_str transformations = Inr lhs"
      and "sp_parse_expr E rhs_str transformations = Inr rhs"
      and "sp_sub E lhs rhs = Inr expr"
      and "sp_degree E expr (sp_symbols E (ascii ''x'')) = Inr d"
  shows "solve_sides E ty lhs_str rhs_str =
     (if ty = Linear \<and> deg_gt d 1 then Inl (ValueError msg_not_linear)
      else if ty = Quadratic \<and> d \<noteq> Degree 2 then Inl (ValueError msg_not_quadratic)
      else (case sp_solve E expr (sp_symbols E (ascii ''x'')) of
              Inl e \<Rightarrow> Inl e
            | Inr solutions \<Rightarrow> format_result E ty solutions))"
  using assms by (simp add: solve_sides_def Let_def)

text \<open>
  C3. When both sides parse and the degree \<open>d\<close> of their difference is computed:
  with Linear declared and \<open>d > 1\<close> the method ends in the \<open>ValueError\<close> "not
  linear"; with Quadratic declared and \<open>d \<noteq> 2\<close> it ends in the \<open>ValueError\<close> "not
  quadratic"; in every other case, degree 0 under Linear among them, the difference
  goes to the solver and the solver's answer to the formatter.
\<close>

theorem degree_check:
  assumes "strip (equation_input_text st) = lhs_str @ eq_sign # rhs_str"
      and "eq_sign \<notin> set lhs_str"
      and "sp_parse_expr E lhs_str transformations = Inr lhs"
      and "sp_parse_expr E rhs_str transformations = Inr rhs"
      and "sp_sub E lhs rhs = Inr expr"
      and "sp_degree E expr (sp_symbols E (ascii ''x'')) = Inr d"
  shows "(linear_check_active st \<and> deg_gt d 1 \<longrightarrow>
            solve_body E st = Inl (ValueError msg_not_linear) \<and>
            solve E st = Inr (st\<lparr>result_label_text := error_prefix @ msg_not_linear\<rparr>)) \<and>
         (\<not> linear_check_active st \<and> d \<noteq> Degree 2 \<longrightarrow>
            solve_body E st = Inl (ValueError msg_not_quadratic) \<and>
            solve E st = Inr (st\<lparr>result_label_text := error_prefix @ msg_not_quadratic\<rparr>)) \<and>
         (linear_check_active st \<and> \<not> deg_gt d 1 \<or> \<not> linear_check_active st \<and> d = Degree 2 \<longrightarrow>
            solve_body E st =
              (case sp_solve E expr (sp_symbols E (ascii ''x'')) of
                 Inl e \<Rightarrow> Inl e
               | Inr solutions \<Rightarrow> format_result E (declared_type st) solutions)) \<and>
         \<not> deg_gt (Degree 0) 1"
proof -
  have body: "solve_body E st =
     (if declared_type st = Linear \<and> deg_gt d 1 then Inl (ValueError msg_not_linear)
      else if declared_type st = Quadratic \<and> d \<noteq> Degree 2 then Inl (ValueError msg_not_quadratic)
      else (case sp_solve E expr (sp_symbols E (ascii ''x'')) of
              Inl e \<Rightarrow> Inl e
            | Inr solutions \<Rightarrow> format_result E (declared_type st) solutions))"
    using solve_body_valid [OF assms(1,2), of E]
      solve_sides_checked [OF assms(3-6), of "declared_type st"]
    by simp
  show ?thesis
    unfolding solve_def body by (simp add: declared_type_def)
qed

theorem degree_check_witness:
  "solve square_engine (state_of True False ''x**2 = 4'') =
     Inr ((state_of True False ''x**2 = 4'')\<lparr>result_label_text := error_prefix @ msg_not_linear\<rparr>) \<and>
   solve line_engine (state_of False True ''2*x = 4'') =
     Inr ((state_of False True ''2*x = 4'')\<lparr>result_label_text := error_prefix @ msg_not_quadratic\<rparr>) \<and>
   solve_body tautology_engine (state_of True False ''x = x'') = Inr msg_no_solutions"
proof -
  have 1: "solve square_engine (state_of True False ''x**2 = 4'') =
     Inr ((state_of True False ''x**2 = 4'')\<lparr>result_label_text := error_prefix @ msg_not_linear\<rparr>)"
    using degree_check [of "state_of True False ''x**2 = 4''" "ascii ''x**2 ''" "ascii '' 4''"
        square_engine "ascii ''x**2''" "ascii ''4''" "ascii ''x**2 - 4''" "Degree 2"]
    by (simp add: run_defs square_engine_def)
  have 2: "solve line_engine (state_of False True ''2*x = 4'') =
     Inr ((state_of False True ''2*x = 4'')\<lparr>result_label_text := error_prefix @ msg_not_quadratic\<rparr>)"
    using degree_check [of "state_of False True ''2*x = 4''" "ascii ''2*x ''" "ascii '' 4''"
        line_engine "ascii ''2*x''" "ascii ''4''" "ascii ''2*x - 4''" "Degree 1"]
    by (simp add: run_defs line_engine_def)
  have 3: "solve_body tautology_engine (state_of True False ''x = x'') = Inr msg_no_solutions"
    using degree_check [of "state_of True False ''x = x''" "ascii ''x ''" "ascii '' x''"
        tautology_engine "ascii ''x''" "ascii ''x''" "ascii ''0''" NegativeInfinity]
    by (simp add: run_defs tautology_engine_def)
  from 1 2 3 show ?thesis by blast
qed

section \<open>Formatting of a solution\<close>

lemma format_solution_total:
  "format_solution E v = Inr (case sp_N E v 4 of Inl e \<Rightarrow> sp_str E v | Inr n \<Rightarrow> sp_str E n)"
  by (simp add: format_solution_def split: sum.split)

text \<open>
  C7. \<open>format_solution\<close> returns a string for every value and every engine: the
  printed form of the 4-digit numeric value when the numeric evaluation succeeds, the
  printed form of the value itself when it raises. It never raises.
\<close>

theorem format_solution_never_raises:
  "format_solution E solution =
     Inr (case sp_N E solution 4 of
            Inr numeric_value \<Rightarrow> sp_str E numeric_value
          | Inl e \<Rightarrow> sp_str E solution) \<and>
   (\<nexists>e. format_solution E solution = Inl e)"
  by (simp add: format_solution_def split: sum.split)

section \<open>The text for the solver's answer\<close>

text \<open>
  What the label shows for the roots the solver returns: the first root under Linear,
  both roots of a two-element answer under Quadratic, and the only root of a
  one-element answer under Quadratic, marked as multiple.
\<close>

lemma linear_root_is_formatted:
  assumes "strip (equation_input_text st) = lhs_str @ eq_sign # rhs_str"
      and "eq_sign \<notin> set lhs_str"
      and "sp_parse_expr E lhs_str transformations = Inr lhs"
      and "sp_parse_expr E rhs_str transformations = Inr rhs"
      and "sp_sub E lhs rhs = Inr expr"
      and "sp_degree E expr (sp_symbols E (ascii ''x'')) = Inr d"
      and "linear_check_active st" and "\<not> deg_gt d 1"
      and "sp_solve E expr (sp_symbols E (ascii ''x'')) = Inr (root # others)"
  shows "solve_body E st =
           Inr (linear_head @
                (case sp_N E root 4 of Inl e \<Rightarrow> sp_str E root | Inr n \<Rightarrow> sp_str E n))"
  using solve_body_valid [OF assms(1,2), of E]
    solve_sides_checked [OF assms(3-6), of "declared_type st"] assms(7-9)
  by (simp add: declared_type_def format_result_def format_solution_total)

lemma quadratic_two_roots_are_formatted:
  assumes "strip (equation_input_text st) = lhs_str @ eq_sign # rhs_str"
      and "eq_sign \<notin> set lhs_str"
      and "sp_parse_expr E lhs_str transformations = Inr lhs"
      and "sp_parse_expr E rhs_str transformations = Inr rhs"
      and "sp_sub E lhs rhs = Inr expr"
      and "sp_degree E expr (sp_symbols E (ascii ''x'')) = Inr (Degree 2)"
      and "\<not> linear_check_active st"
      and "sp_solve E expr (sp_symbols E (ascii ''x'')) = Inr [root1, root2]"
  shows "solve_body E st =
           Inr (roots_head @
                (case sp_N E root1 4 of Inl e \<Rightarrow> sp_str E root1 | Inr n \<Rightarrow> sp_str E n) @
                roots_mid @
                (case sp_N E root2 4 of Inl e \<Rightarrow> sp_str E root2 | Inr n \<Rightarrow> sp_str E n))"
  using solve_body_valid [OF assms(1,2), of E]
    solve_sides_checked [OF assms(3-6), of "declared_type st"] assms(7,8)
  by (simp add: declared_type_def format_result_def format_solution_total)

lemma quadratic_single_root_is_formatted:
  assumes "strip (equation_input_text st) = lhs_str @ eq_sign # rhs_str"
      and "eq_sign \<notin> set lhs_str"
      and "sp_parse_expr E lhs_str transformations = Inr lhs"
      and "sp_parse_expr E rhs_str transformations = Inr rhs"
      and "sp_sub E lhs rhs = Inr expr"
      and "sp_degree E expr (sp_symbols E (ascii ''x'')) = Inr (Degree 2)"
      and "\<not> linear_check_active st"
      and "sp_solve E expr (sp_symbols E (ascii ''x'')) = Inr [root]"
  shows "solve_body E st =
           Inr (multiple_head @
                (case sp_N E root 4 of Inl e \<Rightarrow> sp_str E root | Inr n \<Rightarrow> sp_str E n))"
  using solve_body_valid [OF assms(1,2), of E]
    solve_sides_checked [OF assms(3-6), of "declared_type st"] assms(7,8)
  by (simp add: declared_type_def format_result_def format_solution_total)

lemma format_result_nonempty:
  assumes "solutions \<noteq> []"
  shows "\<exists>txt. format_result E ty solutions = Inr txt \<and> txt \<noteq> msg_no_solutions"
proof -
  have ne: "roots_head @ a \<noteq> msg_no_solutions" "multiple_head @ a \<noteq> msg_no_solutions"
    "linear_head @ a \<noteq> msg_no_solutions" for a
    by (simp_all add: roots_head_def multiple_head_def linear_head_def msg_no_solutions_def)
  show ?thesis
    using assms by (simp add: format_result_def format_solution_total ne)
qed

text \<open>
  With the engine of the equation \<open>x = x\<close> and Linear declared, \<open>solve\<close> raises
  nothing and shows the message "the equation has no solutions".
\<close>

theorem tautology_counterexample:
  "solve_body tautology_engine (state_of True False ''x = x'') = Inr msg_no_solutions \<and>
   solve tautology_engine (state_of True False ''x = x'') =
     Inr ((state_of True False ''x = x'')\<lparr>result_label_text := msg_no_solutions\<rparr>)"
  by (simp add: run_defs tautology_engine_def)

text \<open>
  C6, as amended. Once both sides are parsed, the degree check is passed and the solver
  returns a list, \<open>solve\<close> raises nothing: the label shows the "no solutions" message
  exactly when the list is empty, and the formatted roots otherwise. A degenerate
  equation of degree 0 has no outcome of its own; when the solver answers it with the
  empty list, as for \<open>x = x\<close>, it gets the "no solutions" message.
\<close>

theorem solver_answer_is_never_an_error:
  assumes "strip (equation_input_text st) = lhs_str @ eq_sign # rhs_str"
      and "eq_sign \<notin> set lhs_str"
      and "sp_parse_expr E lhs_str transformations = Inr lhs"
      and "sp_parse_expr E rhs_str transformations = Inr rhs"
      and "sp_sub E lhs rhs = Inr expr"
      and "sp_degree E expr (sp_symbols E (ascii ''x'')) = Inr d"
      and "if linear_check_active st then \<not> deg_gt d 1 else d = Degree 2"
      and "sp_solve E expr (sp_symbols E (ascii ''x'')) = Inr solutions"
  shows "\<exists>txt. solve_body E st = Inr txt \<and>
           solve E st = Inr (st\<lparr>result_label_text := txt\<rparr>) \<and>
           (txt = msg_no_solutions \<longleftrightarrow> solutions = [])"
proof -
  have body: "solve_body E st = format_result E (declared_type st) solutions"
    using solve_body_valid [OF assms(1,2), of E]
      solve_sides_checked [OF assms(3-6), of "declared_type st"] assms(7,8)
    by (simp add: declared_type_def split: if_splits)
  show ?thesis
  proof (cases "solutions = []")
    case True
    then show ?thesis by (simp add: solve_def body format_result_def)
  next
    case False
    then obtain t where "format_result E (declared_type st) solutions = Inr t"
        "t \<noteq> msg_no_solutions"
      using format_result_nonempty by blast
    with False show ?thesis by (simp add: solve_def body)
  qed
qed

theorem solver_answer_is_never_an_error_witness:
  "solve tautology_engine (state_of True False ''x = x'') =
     Inr ((state_of True False ''x = x'')\<lparr>result_label_text := msg_no_solutions\<rparr>) \<and>
   (\<exists>txt. solve_body line_engine (state_of True False ''2*x = 4'') = Inr txt \<and>
      txt \<noteq> msg_no_solutions)"
proof -
  have 1: "solve tautology_engine (state_of True False ''x = x'') =
     Inr ((state_of True False ''x = x'')\<lparr>result_label_text := msg_no_solutions\<rparr>)"
    using solver_answer_is_never_an_error [of "state_of True False ''x = x''" "ascii ''x ''"
        "ascii '' x''" tautology_engine "ascii ''x''" "ascii ''x''" "ascii ''0''"
        NegativeInfinity "[]"]
    by (simp add: run_defs tautology_engine_def)
  have 2: "\<exists>txt. solve_body line_engine (state_of True False ''2*x = 4'') = Inr txt \<and>
      txt \<noteq> msg_no_solutions"
    using solver_answer_is_never_an_error [of "state_of True False ''2*x = 4''" "ascii ''2*x ''"
        "ascii '' 4''" line_engine "ascii ''2*x''" "ascii ''4''" "ascii ''2*x - 4''"
        "Degree 1" "[ascii ''2'']"]
    by (simp add: run_defs line_engine_def)
  from 1 2 show ?thesis by blast
qed

section \<open>The handler of \<open>solve\<close>\<close>













section \<open>The transformations given to the parser\<close>

text \<open>
  C5. The tuple that \<open>solve\<close> passes to \<open>parse_expr\<close> holds the transformation for
  implicit multiplication and does not hold \<open>convert_xor\<close>: the parser is not asked to
  read \<open>^\<close> as exponentiation, although the comment at line 37 says that \<open>x^2\<close> is
  turned into \<open>x**2\<close>.
\<close>

theorem caret_is_not_converted:
  "convert_xor \<notin> set transformations \<and>
   implicit_multiplication_application \<in> set transformations"
  by (simp add: transformations_def standard_transformations_def)

section \<open>The check boxes\<close>

text \<open>
  Deactivating the active box of the initial state leaves no box active.
\<close>

theorem deactivation_counterexample:
  "reachable (set_active linear_check False init_state) \<and>
   \<not> exactly_one_active (set_active linear_check False init_state)"
proof
  show "reachable (set_active linear_check False init_state)"
    by (intro reachable.intros)
  show "\<not> exactly_one_active (set_active linear_check False init_state)"
    by (simp add: exactly_one_active_def set_active_def active_def on_checkbox_active_def
        init_state_def)
qed

lemma reachable_not_both:
  "reachable st \<Longrightarrow> \<not> (linear_check_active st \<and> quadratic_check_active st)"
proof (induction rule: reachable.induct)
  case init
  show ?case by (simp add: init_state_def)
next
  case (toggle st checkbox v)
  then show ?case
    by (cases checkbox; cases v)
      (auto simp add: set_active_def active_def on_checkbox_active_def)
qed

text \<open>
  C9, as amended. Initially exactly the linear box is active. In every reachable state
  at most one of the two boxes is active, and a step that activates a box leaves
  exactly that box active: selecting one deselects the other.
\<close>

theorem at_most_one_active:
  assumes "reachable st"
  shows "exactly_one_active init_state \<and> linear_check_active init_state \<and>
         \<not> (linear_check_active st \<and> quadratic_check_active st) \<and>
         linear_check_active (set_active linear_check True st) \<and>
         \<not> quadratic_check_active (set_active linear_check True st) \<and>
         quadratic_check_active (set_active quadratic_check True st) \<and>
         \<not> linear_check_active (set_active quadratic_check True st) \<and>
         exactly_one_active (set_active checkbox True st)"
  using reachable_not_both [OF assms]
  by (cases checkbox)
    (auto simp add: exactly_one_active_def set_active_def active_def on_checkbox_active_def
      init_state_def)

theorem at_most_one_active_witness:
  "reachable (set_active quadratic_check True init_state) \<and>
   \<not> (linear_check_active (set_active quadratic_check True init_state) \<and>
      quadratic_check_active (set_active quadratic_check True init_state)) \<and>
   exactly_one_active
     (set_active linear_check True (set_active quadratic_check True init_state))"
proof -
  have r: "reachable (set_active quadratic_check True init_state)"
    by (intro reachable.intros)
  show ?thesis
    using r at_most_one_active [OF r, of linear_check] by simp
qed

section \<open>Frame of \<open>clear_fields\<close>\<close>

text \<open>
  C10. From every state, \<open>clear_fields\<close> sets the input text to the empty string and
  the result label to the placeholder, and changes nothing else: the two check boxes
  keep their values.
\<close>

theorem clear_fields_frame:
  "equation_input_text (clear_fields instance st) = [] \<and>
   result_label_text (clear_fields instance st) = placeholder \<and>
   linear_check_active (clear_fields instance st) = linear_check_active st \<and>
   quadratic_check_active (clear_fields instance st) = quadratic_check_active st \<and>
   state.more (clear_fields instance st) = state.more st \<and>
   declared_type (clear_fields instance st) = declared_type st"
  by (simp add: clear_fields_def declared_type_def)

end
